theory Spec2Isabelle
  imports Main "HOL-Library.Sublist"
begin

section \<open>Data model\<close>

text \<open>
  The development embeds \<^verbatim>\<open>nanobot/providers/multi_model_provider.py\<close>: the class
  \<^verbatim>\<open>MultiModelProvider\<close> with its constructor, its client cache
  (\<^verbatim>\<open>_get_provider_for_model\<close>), the fallback loop of \<^verbatim>\<open>chat\<close> and the two accessors.

  A Python \<^verbatim>\<open>str\<close> is a \<^typ>\<open>string\<close>, one list element per character, so that
  \<^verbatim>\<open>len(e)\<close> is \<^term>\<open>length e\<close> and \<^verbatim>\<open>e[:50]\<close> is \<^term>\<open>take 50 e\<close>. A value of type
  \<^verbatim>\<open>str | None\<close> is a \<^typ>\<open>string option\<close>.
\<close>

type_synonym addr = nat


fun str_or :: "string option \<Rightarrow> string \<Rightarrow> string" where
  "str_or None d = d"
| "str_or (Some s) d = (if s \<noteq> [] then s else d)"

text \<open>
  Modelled from the spec: the configuration collaborator (\<^verbatim>\<open>nanobot.config.schema.Config\<close>,
  not part of the sources at hand). The spec gives its interface as pure lookups that never
  raise, \<^verbatim>\<open>providerConfigFor(modelIdentifier) -> {apiKey?, apiBase?, extraHeaders?}\<close> and
  \<^verbatim>\<open>providerNameFor(modelIdentifier) -> string?\<close>; the code also calls
  \<^verbatim>\<open>config.get_api_base(model)\<close>. The three lookups are the fields of \<open>Config\<close>.
\<close>

record provider_config =
  api_key :: "string option"
  api_base :: "string option"
  extra_headers :: "(string \<times> string) list option"

record Config =
  get_provider :: "string \<Rightarrow> provider_config option"
  get_provider_name :: "string \<Rightarrow> string option"
  get_api_base :: "string \<Rightarrow> string option"

text \<open>
  The three concrete clients, each with the keyword arguments the code passes to its
  constructor, in the order they are written there:
  \<^verbatim>\<open>OpenAICodexProvider(default_model)\<close>,
  \<^verbatim>\<open>CustomProvider(api_key, api_base, default_model)\<close>,
  \<^verbatim>\<open>LiteLLMProvider(api_key, api_base, default_model, extra_headers, provider_name)\<close>.
\<close>

datatype provider =
    OpenAICodexProvider string
  | CustomProvider "string option" string string
  | LiteLLMProvider "string option" "string option" string
      "(string \<times> string) list option" "string option"

text \<open>
  Modelled from the spec: the normalised response (\<^verbatim>\<open>nanobot.providers.base.LLMResponse\<close>,
  not part of the sources at hand): optional textual content, a finish-reason tag and
  backend-specific metadata, opaque to the dispatcher.
\<close>

record 'm LLMResponse =
  content :: "string option"
  finish_reason :: string
  meta :: 'm

text \<open>
  The events sent to the logger, one constructor per \<^verbatim>\<open>logger\<close> call of \<^verbatim>\<open>chat\<close>,
  carrying the arguments of the call.
\<close>

datatype log_event =
    Debug_trying nat string
  | Warning_failed string string
  | Warning_threw string string
  | Info_fallback string string
  | Error_all_failed string

text \<open>
  The dispatcher object. \<^verbatim>\<open>self.models\<close> is a reference to a list object, so the field
  holds an address of the store below; \<^verbatim>\<open>self._providers\<close> is the client cache, a
  dictionary from model identifier to client instance. A client instance is the address the
  object was allocated at (its identity) with the constructor call that made it.
\<close>

record MultiModelProvider =
  config :: Config
  models :: addr
  default_model :: string
  providers :: "string \<rightharpoonup> (addr \<times> provider)"

text \<open>
  Everything outside the dispatcher object: the contents of the list objects by address, the
  next free address, the state of the backends (network, remote services; of any type
  \<open>'w\<close>) and the log written so far.
\<close>

record 'w world =
  list_at :: "addr \<Rightarrow> string list"
  next_addr :: addr
  backend :: 'w
  log :: "log_event list"

section \<open>Constructor and accessors\<close>

text \<open>
  \<^verbatim>\<open>self.models = models or [default_model]\<close>: a non-empty list passed by the caller is
  stored by reference; for \<^verbatim>\<open>None\<close> or an empty list a new one-element list is allocated.
\<close>

definition new_list :: "string list \<Rightarrow> 'w world \<Rightarrow> addr \<times> 'w world" where
  "new_list xs w =
     (next_addr w, w\<lparr>list_at := (list_at w)(next_addr w := xs), next_addr := next_addr w + 1\<rparr>)"

definition init ::
  "Config \<Rightarrow> addr option \<Rightarrow> string \<Rightarrow> 'w world \<Rightarrow> MultiModelProvider \<times> 'w world" where
  "init cfg models_arg dm w =
     (let (a, w') =
        (case models_arg of
           None \<Rightarrow> new_list [dm] w
         | Some l \<Rightarrow> if list_at w l \<noteq> [] then (l, w) else new_list [dm] w)
      in (\<lparr>config = cfg, models = a, default_model = dm, providers = Map.empty\<rparr>, w'))"

text \<open>\<^verbatim>\<open>return self.models[0] if self.models else self.default_model\<close>\<close>

definition get_default_model :: "MultiModelProvider \<Rightarrow> 'w world \<Rightarrow> string" where
  "get_default_model self w =
     (case list_at w (models self) of [] \<Rightarrow> default_model self | m # _ \<Rightarrow> m)"

text \<open>\<^verbatim>\<open>return self.models.copy()\<close>: a new list object with the same elements.\<close>

definition get_models :: "MultiModelProvider \<Rightarrow> 'w world \<Rightarrow> addr \<times> 'w world" where
  "get_models self w = new_list (list_at w (models self)) w"

section \<open>Candidate order\<close>

text \<open>
  The value of the local \<^verbatim>\<open>models_to_try\<close> of \<^verbatim>\<open>chat\<close>. The \<^verbatim>\<open>for\<close> loop that appends
  every configured model different from the requested one is \<^const>\<open>filter\<close>.
\<close>

definition models_to_try ::
  "MultiModelProvider \<Rightarrow> string option \<Rightarrow> 'w world \<Rightarrow> string list" where
  "models_to_try self model w =
     (case model of
        None \<Rightarrow> list_at w (models self)
      | Some r \<Rightarrow>
          if r \<noteq> [] then r # filter (\<lambda>m. m \<noteq> r) (list_at w (models self))
          else list_at w (models self))"

section \<open>Client cache\<close>

text \<open>
  The constructors of the three clients and \<^verbatim>\<open>registry.find_by_name\<close> are not part of the
  sources at hand. They are parameters of the model, and each may raise:
  \<open>construct ext p = Some e\<close> says that the constructor call \<open>p\<close> raises an \<^verbatim>\<open>Exception\<close>
  with the text \<open>e\<close>, and \<open>find_by_name ext n = Some e\<close> that the lookup of the provider name
  \<open>n\<close> does; \<open>None\<close> is a call that returns. The value \<^verbatim>\<open>find_by_name\<close> returns is bound to
  \<^verbatim>\<open>spec\<close> and never read.
\<close>

record externals =
  construct :: "provider \<Rightarrow> string option"
  find_by_name :: "string \<Rightarrow> string option"

text \<open>
  The client the three-way branch of \<^verbatim>\<open>_get_provider_for_model\<close> constructs for a model that
  is not cached. \<^verbatim>\<open>x.f if provider_config else d\<close> is the \<^verbatim>\<open>case\<close> on the looked-up
  provider configuration (an object, true whenever it is not \<^verbatim>\<open>None\<close>).
\<close>

definition new_provider :: "Config \<Rightarrow> string \<Rightarrow> provider" where
  "new_provider cfg model =
     (let provider_config = get_provider cfg model;
          provider_name = get_provider_name cfg model
      in if provider_name = Some ''openai_codex'' \<or> prefix ''openai-codex/'' model
         then OpenAICodexProvider model
         else if provider_name = Some ''custom''
         then CustomProvider
                (case provider_config of Some pc \<Rightarrow> api_key pc | None \<Rightarrow> Some ''no-key'')
                (str_or (get_api_base cfg model) ''http://localhost:8000/v1'')
                model
         else LiteLLMProvider
                (case provider_config of Some pc \<Rightarrow> api_key pc | None \<Rightarrow> None)
                (case provider_config of Some pc \<Rightarrow> api_base pc | None \<Rightarrow> None)
                model
                (case provider_config of Some pc \<Rightarrow> extra_headers pc | None \<Rightarrow> None)
                provider_name)"

text \<open>
  \<^verbatim>\<open>spec = find_by_name(provider_name) if provider_name else None\<close>: the lookup is made for a
  provider name that is neither \<^verbatim>\<open>None\<close> nor empty; the result here is what it raises.
\<close>

fun registry_lookup :: "externals \<Rightarrow> string option \<Rightarrow> string option" where
  "registry_lookup ext None = None"
| "registry_lookup ext (Some n) = (if n \<noteq> [] then find_by_name ext n else None)"

text \<open>
  \<^verbatim>\<open>_get_provider_for_model\<close>. The result is \<open>Inl e\<close> when the call raises with the text \<open>e\<close>,
  which happens before anything is stored, and \<open>Inr\<close> the instance returned. On a miss the
  new client object is allocated at the next free address and stored under the model; the
  cached instance is returned.
\<close>

definition get_provider_for_model ::
  "externals \<Rightarrow> MultiModelProvider \<Rightarrow> string \<Rightarrow> 'w world
     \<Rightarrow> (string + addr \<times> provider) \<times> MultiModelProvider \<times> 'w world" where
  "get_provider_for_model ext self model w =
     (case providers self model of
        None \<Rightarrow>
          (case registry_lookup ext (get_provider_name (config self) model) of
             Some e \<Rightarrow> (Inl e, self, w)
           | None \<Rightarrow>
               (case construct ext (new_provider (config self) model) of
                  Some e \<Rightarrow> (Inl e, self, w)
                | None \<Rightarrow>
                    (let inst = (next_addr w, new_provider (config self) model)
                     in (Inr inst, self\<lparr>providers := (providers self)(model \<mapsto> inst)\<rparr>,
                         w\<lparr>next_addr := next_addr w + 1\<rparr>))))
      | Some inst \<Rightarrow> (Inr inst, self, w))"

section \<open>Fallback dispatch\<close>

text \<open>
  The call \<^verbatim>\<open>await provider.chat(messages=..., tools=..., model=model_name, ...)\<close> is a
  parameter \<open>pc\<close> of the dispatcher: from the client, the request (messages, tools, token limit
  and temperature, of any type \<open>'q\<close>), the model name and the state of the backends it yields
  the new state of the backends and what the call did. It returned a response; or it raised
  an \<^verbatim>\<open>Exception\<close>, of which \<^verbatim>\<open>except Exception as e\<close> sees the text \<^verbatim>\<open>str(e)\<close>; or it raised
  something that is not an \<^verbatim>\<open>Exception\<close> (\<^verbatim>\<open>asyncio.CancelledError\<close>,
  \<^verbatim>\<open>KeyboardInterrupt\<close>, \<^verbatim>\<open>SystemExit\<close>), named by a string, which that handler does not
  catch.
\<close>

datatype 'm call_result =
    Returned "'m LLMResponse"
  | Raised_Exception string
  | Raised_other string

type_synonym ('w, 'q, 'm) provider_chat =
  "provider \<Rightarrow> 'q \<Rightarrow> string \<Rightarrow> 'w \<Rightarrow> 'm call_result \<times> 'w"

text \<open>The test of \<^verbatim>\<open>chat\<close> for a response that reports an error.\<close>

definition is_error_response :: "'m LLMResponse \<Rightarrow> bool" where
  "is_error_response response \<longleftrightarrow>
     finish_reason response = ''error''
     \<or> (case content response of
           None \<Rightarrow> False
         | Some c \<Rightarrow> c \<noteq> [] \<and> prefix ''Error calling LLM:'' c)"

text \<open>
  How one iteration of the \<^verbatim>\<open>for\<close> loop ends: in \<^verbatim>\<open>continue\<close>, with the pair appended to
  \<^verbatim>\<open>errors\<close>; in \<^verbatim>\<open>return response\<close>; or in a raise that leaves \<^verbatim>\<open>chat\<close>.
\<close>

datatype 'm step = Continue "string \<times> string" | Return "'m LLMResponse" | Propagate string

text \<open>
  One iteration, for the candidate \<open>model_name\<close> at position \<open>idx\<close> of \<open>mtt\<close> (the whole of
  \<^verbatim>\<open>models_to_try\<close>). A raise of \<^verbatim>\<open>_get_provider_for_model\<close> happens inside the \<^verbatim>\<open>try\<close>,
  before the debug message, and is handled like a raise of the backend call. The local
  \<^verbatim>\<open>last_error\<close> is never read and is left out.
\<close>

definition attempt ::
  "externals \<Rightarrow> ('w, 'q, 'm) provider_chat \<Rightarrow> 'q \<Rightarrow> string list \<Rightarrow> nat \<Rightarrow> string
     \<Rightarrow> MultiModelProvider \<Rightarrow> 'w world
     \<Rightarrow> 'm step \<times> MultiModelProvider \<times> 'w world" where
  "attempt ext pc req mtt idx model_name self w =
     (case get_provider_for_model ext self model_name w of
        (Inl e, self1, w1) \<Rightarrow>
          (Continue (model_name, e), self1,
           w1\<lparr>log := log w1 @ [Warning_threw model_name e]\<rparr>)
      | (Inr inst, self1, w1) \<Rightarrow>
          (let w2 = w1\<lparr>log := log w1 @ [Debug_trying (idx + 1) model_name]\<rparr>;
               (res, b) = pc (snd inst) req model_name (backend w2);
               w3 = w2\<lparr>backend := b\<rparr>
           in case res of
                Returned response \<Rightarrow>
                  if is_error_response response
                  then (let error_msg = str_or (content response) ''Unknown error''
                        in (Continue (model_name, error_msg), self1,
                            w3\<lparr>log := log w3 @ [Warning_failed model_name error_msg]\<rparr>))
                  else (Return response, self1,
                        if length mtt > 1 \<and> idx > 0
                        then w3\<lparr>log := log w3 @ [Info_fallback (hd mtt) model_name]\<rparr>
                        else w3)
              | Raised_Exception e \<Rightarrow>
                  (Continue (model_name, e), self1,
                   w3\<lparr>log := log w3 @ [Warning_threw model_name e]\<rparr>)
              | Raised_other s \<Rightarrow> (Propagate s, self1, w3)))"

text \<open>
  The \<^verbatim>\<open>for\<close> loop over the candidates still to try, with the index of the next one and the
  \<^verbatim>\<open>errors\<close> accumulated so far. \<open>None\<close> is the loop running to its end, \<open>Some (Inr response)\<close>
  the \<^verbatim>\<open>return\<close> from inside it, and \<open>Some (Inl s)\<close> the raise \<open>s\<close> leaving it. The
  \<^verbatim>\<open>errors\<close> at that moment are part of the result.
\<close>

fun chat_loop ::
  "externals \<Rightarrow> ('w, 'q, 'm) provider_chat \<Rightarrow> 'q \<Rightarrow> string list \<Rightarrow> nat \<Rightarrow> string list
     \<Rightarrow> (string \<times> string) list \<Rightarrow> MultiModelProvider \<Rightarrow> 'w world
     \<Rightarrow> (string + 'm LLMResponse) option \<times> (string \<times> string) list
         \<times> MultiModelProvider \<times> 'w world"
where
  "chat_loop ext pc req mtt idx [] errors self w = (None, errors, self, w)"
| "chat_loop ext pc req mtt idx (model_name # rest) errors self w =
     (case attempt ext pc req mtt idx model_name self w of
        (Continue err, self', w') \<Rightarrow>
          chat_loop ext pc req mtt (idx + 1) rest (errors @ [err]) self' w'
      | (Return response, self', w') \<Rightarrow> (Some (Inr response), errors, self', w')
      | (Propagate s, self', w') \<Rightarrow> (Some (Inl s), errors, self', w'))"

text \<open>Python's \<^verbatim>\<open>sep.join(parts)\<close>.\<close>

fun join :: "string \<Rightarrow> string list \<Rightarrow> string" where
  "join sep [] = []"
| "join sep [x] = x"
| "join sep (x # y # ys) = x @ sep @ join sep (y # ys)"

text \<open>
  One element of the generator joined into \<^verbatim>\<open>error_summary\<close>:
  \<^verbatim>\<open>f"{m}: {e[:50]}..." if len(e) > 50 else f"{m}: {e}"\<close>.
\<close>

fun render_error :: "string \<times> string \<Rightarrow> string" where
  "render_error (m, e) =
     (if length e > 50 then m @ '': '' @ take 50 e @ ''...'' else m @ '': '' @ e)"

definition error_summary :: "(string \<times> string) list \<Rightarrow> string" where
  "error_summary errors = join ''; '' (map render_error errors)"

text \<open>
  The body of \<^verbatim>\<open>chat\<close>. \<open>chat_run\<close> yields what the call does for its caller, \<open>Inr\<close> the response
  returned or \<open>Inl\<close> the raise that leaves it, the local \<^verbatim>\<open>errors\<close> at that moment, and the
  dispatcher and the world as the call leaves them; \<open>chat\<close> is what the caller sees of it. The
  response built when every candidate has failed leaves the metadata of \<^verbatim>\<open>LLMResponse\<close> at
  its defaults, the parameter \<open>dflt\<close>.
\<close>

definition chat_run ::
  "externals \<Rightarrow> ('w, 'q, 'm) provider_chat \<Rightarrow> 'm \<Rightarrow> 'q \<Rightarrow> string option
     \<Rightarrow> MultiModelProvider \<Rightarrow> 'w world
     \<Rightarrow> (string + 'm LLMResponse) \<times> (string \<times> string) list \<times> MultiModelProvider \<times> 'w world"
where
  "chat_run ext pc dflt req model self w =
     (let mtt = models_to_try self model w
      in case chat_loop ext pc req mtt 0 mtt [] self w of
           (Some r, errors, self', w') \<Rightarrow> (r, errors, self', w')
         | (None, errors, self', w') \<Rightarrow>
             (Inr \<lparr>content = Some (''Error: All models failed. '' @ error_summary errors),
                   finish_reason = ''error'', meta = dflt\<rparr>,
              errors, self',
              w'\<lparr>log := log w' @ [Error_all_failed (error_summary errors)]\<rparr>))"

definition chat ::
  "externals \<Rightarrow> ('w, 'q, 'm) provider_chat \<Rightarrow> 'm \<Rightarrow> 'q \<Rightarrow> string option
     \<Rightarrow> MultiModelProvider \<Rightarrow> 'w world
     \<Rightarrow> (string + 'm LLMResponse) \<times> MultiModelProvider \<times> 'w world" where
  "chat ext pc dflt req model self w =
     (case chat_run ext pc dflt req model self w of
        (r, errors, self', w') \<Rightarrow> (r, self', w'))"

section \<open>Notions used to state the properties\<close>




text \<open>
  What a caller can do with a dispatcher between two resolutions of a model: resolve a model,
  send a request, or replace the configuration. \<open>run_calls\<close> performs a sequence of these.
\<close>

datatype 'q call = Resolve string | Chat 'q "string option" | Set_config Config

fun run_call ::
  "externals \<Rightarrow> ('w, 'q, 'm) provider_chat \<Rightarrow> 'm \<Rightarrow> 'q call \<Rightarrow> MultiModelProvider \<Rightarrow> 'w world
     \<Rightarrow> MultiModelProvider \<times> 'w world" where
  "run_call ext pc dflt (Resolve m) self w = snd (get_provider_for_model ext self m w)"
| "run_call ext pc dflt (Chat req model) self w = snd (chat ext pc dflt req model self w)"
| "run_call ext pc dflt (Set_config cfg) self w = (self\<lparr>config := cfg\<rparr>, w)"

fun run_calls ::
  "externals \<Rightarrow> ('w, 'q, 'm) provider_chat \<Rightarrow> 'm \<Rightarrow> 'q call list \<Rightarrow> MultiModelProvider
     \<Rightarrow> 'w world \<Rightarrow> MultiModelProvider \<times> 'w world" where
  "run_calls ext pc dflt [] self w = (self, w)"
| "run_calls ext pc dflt (c # cs) self w =
     (case run_call ext pc dflt c self w of (self', w') \<Rightarrow> run_calls ext pc dflt cs self' w')"

text \<open>
  The spec's classification of what happens to one candidate, in the spec's words, stated on
  the outcome itself and not on what the code makes of it. A soft failure is a call that returns
  normally with a response whose finish-reason equals \<^verbatim>\<open>"error"\<close> or whose content begins
  with \<^verbatim>\<open>"Error calling LLM:"\<close>. A hard failure is a raise that the dispatcher is to
  record: a raised \<^verbatim>\<open>Exception\<close>. A candidate has failed when it fails in either way.
\<close>

definition soft_failure :: "'m LLMResponse \<Rightarrow> bool" where
  "soft_failure response \<longleftrightarrow>
     finish_reason response = ''error''
     \<or> (case content response of
           None \<Rightarrow> False
         | Some c \<Rightarrow> prefix ''Error calling LLM:'' c)"

fun failed :: "'m call_result \<Rightarrow> bool" where
  "failed (Returned response) = soft_failure response"
| "failed (Raised_Exception e) = True"
| "failed (Raised_other s) = False"

text \<open>
  The spec's Failure Record for a failed candidate: the candidate with the message of the
  exception, or with the content of the response, or with \<^verbatim>\<open>"Unknown error"\<close> when the
  response has no content or an empty one. No record is made for an outcome that is not a
  failure; the last equation only completes the function.
\<close>

fun failure_record :: "string \<Rightarrow> 'm call_result \<Rightarrow> string \<times> string" where
  "failure_record m (Raised_Exception e) = (m, e)"
| "failure_record m (Returned response) =
     (m, case content response of
           None \<Rightarrow> ''Unknown error''
         | Some c \<Rightarrow> if c = [] then ''Unknown error'' else c)"
| "failure_record m (Raised_other s) = (m, s)"

text \<open>
  What happens to the candidates of a list when each one is resolved and its backend called,
  one after the other: the outcome for each, and the dispatcher and the world after the last
  one. A candidate whose resolution raises has that raise as its outcome. Nothing is logged,
  and no outcome is judged: the run does not depend on \<^verbatim>\<open>chat\<close>.
\<close>

fun call_each ::
  "externals \<Rightarrow> ('w, 'q, 'm) provider_chat \<Rightarrow> 'q \<Rightarrow> string list \<Rightarrow> MultiModelProvider
     \<Rightarrow> 'w world \<Rightarrow> 'm call_result list \<times> MultiModelProvider \<times> 'w world" where
  "call_each ext pc req [] self w = ([], self, w)"
| "call_each ext pc req (m # ms) self w =
     (case get_provider_for_model ext self m w of
        (Inl e, self1, w1) \<Rightarrow>
          (case call_each ext pc req ms self1 w1 of
             (outs, self', w') \<Rightarrow> (Raised_Exception e # outs, self', w'))
      | (Inr inst, self1, w1) \<Rightarrow>
          (case pc (snd inst) req m (backend w1) of
             (out, b) \<Rightarrow>
               (case call_each ext pc req ms self1 (w1\<lparr>backend := b\<rparr>) of
                  (outs, self', w') \<Rightarrow> (out # outs, self', w'))))"

text \<open>
  \<open>occurs_in_order ms s\<close>: the strings \<open>ms\<close> occur in \<open>s\<close> one after the other, without
  overlap, in the order of the list.
\<close>

inductive occurs_in_order :: "string list \<Rightarrow> string \<Rightarrow> bool" where
  occ_nil: "occurs_in_order [] s"
| occ_cons: "occurs_in_order ms post \<Longrightarrow> occurs_in_order (m # ms) (pre @ m @ post)"

section \<open>Example inputs\<close>

text \<open>
  A configuration with nothing configured; one that only names the provider of
  \<^verbatim>\<open>"local/m"\<close> as \<^verbatim>\<open>"custom"\<close>; and one that also has a provider configuration for that
  model, with no key set.
\<close>

definition no_config :: Config where
  "no_config =
     \<lparr>get_provider = (\<lambda>m. None), get_provider_name = (\<lambda>m. None),
      get_api_base = (\<lambda>m. None)\<rparr>"

definition demo_config :: Config where
  "demo_config =
     \<lparr>get_provider = (\<lambda>m. None),
      get_provider_name = (\<lambda>m. if m = ''local/m'' then Some ''custom'' else None),
      get_api_base = (\<lambda>m. None)\<rparr>"


text \<open>
  Constructors and a registry lookup that always return, and constructors of which the one of
  the direct-endpoint client rejects a key that is not set.
\<close>

definition demo_ext :: externals where
  "demo_ext = \<lparr>construct = (\<lambda>p. None), find_by_name = (\<lambda>n. None)\<rparr>"

definition strict_ext :: externals where
  "strict_ext =
     \<lparr>construct =
        (\<lambda>p. case p of
               CustomProvider None b dm \<Rightarrow> Some ''api_key is required''
             | _ \<Rightarrow> None),
      find_by_name = (\<lambda>n. None)\<rparr>"

text \<open>
  Backends whose state counts the calls made: \<^verbatim>\<open>"b/y"\<close> raises a transport error,
  \<^verbatim>\<open>"c/z"\<close> raises with a message of 61 characters, \<^verbatim>\<open>"a/x"\<close> answers, and every other
  model returns an error text as its content. And backends on which every call is cancelled.
\<close>

definition long_message :: string where
  "long_message = ''upstream gateway refused the connection after 3 retries (503)''"

definition demo_chat :: "(nat, unit, unit) provider_chat" where
  "demo_chat p req m n =
     (if m = ''b/y'' then (Raised_Exception ''transport error'', n + 1)
      else if m = ''c/z'' then (Raised_Exception long_message, n + 1)
      else if m = ''a/x''
      then (Returned \<lparr>content = Some ''hi'', finish_reason = ''stop'', meta = ()\<rparr>, n + 1)
      else (Returned \<lparr>content = Some ''Error calling LLM: timeout'', finish_reason = ''stop'',
                      meta = ()\<rparr>, n + 1))"

definition cancelled_chat :: "(nat, unit, unit) provider_chat" where
  "cancelled_chat p req m n = (Raised_other ''CancelledError'', n + 1)"

text \<open>A world with six list objects, no call made and nothing logged.\<close>

definition demo_world :: "nat world" where
  "demo_world =
     \<lparr>list_at = (\<lambda>a. if a = 0 then [''a/x'', ''b/y'', ''b/y'']
                   else if a = 1 then [''a/x'', '''']
                   else if a = 2 then [''a/x'', ''b/y'', ''c/z'']
                   else if a = 4 then [''a/x'', ''b/y'']
                   else if a = 5 then [''c/z'', ''d/z'']
                   else []),
      next_addr = 6, backend = 0, log = []\<rparr>"

text \<open>A dispatcher whose \<^verbatim>\<open>models\<close> is the list object at a given address.\<close>

definition demo_self :: "addr \<Rightarrow> MultiModelProvider" where
  "demo_self a = \<lparr>config = no_config, models = a, default_model = ''d/z'', providers = Map.empty\<rparr>"

section \<open>Candidate order: properties\<close>

text \<open>
  C1 (as amended). For a configured model list \<open>ms\<close> and a requested model \<open>r\<close> that is a
  non-empty string present in \<open>ms\<close>, the candidate list of \<^verbatim>\<open>chat\<close> starts with \<open>r\<close>, and
  its remaining elements are \<open>ms\<close> with every occurrence of \<open>r\<close> removed, in their original
  order. The candidate list is free of duplicates exactly when the configured models other
  than \<open>r\<close> are.
\<close>

theorem C1_requested_first:
  assumes "list_at w (models self) = ms" and "r \<in> set ms" and "r \<noteq> []"
  shows "hd (models_to_try self (Some r) w) = r
       \<and> tl (models_to_try self (Some r) w) = filter (\<lambda>m. m \<noteq> r) ms
       \<and> models_to_try self (Some r) w = r # filter (\<lambda>m. m \<noteq> r) ms
       \<and> (distinct (models_to_try self (Some r) w) \<longleftrightarrow> distinct (filter (\<lambda>m. m \<noteq> r) ms))"
  using assms by (simp add: models_to_try_def)

theorem C1_requested_first_witness:
  "list_at demo_world (models (demo_self 2)) = [''a/x'', ''b/y'', ''c/z'']
   \<and> ''b/y'' \<in> set [''a/x'', ''b/y'', ''c/z'']
   \<and> models_to_try (demo_self 2) (Some ''b/y'') demo_world = [''b/y'', ''a/x'', ''c/z'']
   \<and> distinct (models_to_try (demo_self 2) (Some ''b/y'') demo_world)"
  using C1_requested_first [where w = demo_world and self = "demo_self 2"
      and ms = "[''a/x'', ''b/y'', ''c/z'']" and r = "''b/y''"]
  by (simp add: demo_world_def demo_self_def)

text \<open>
  The claim as stated fails in two ways. A configured list \<^verbatim>\<open>["a/x", "b/y", "b/y"]\<close> with
  \<^verbatim>\<open>"a/x"\<close> requested gives the candidates \<^verbatim>\<open>["a/x", "b/y", "b/y"]\<close>, which repeat
  \<^verbatim>\<open>"b/y"\<close>: nothing in \<^verbatim>\<open>chat\<close> removes duplicates. And for the configured list
  \<^verbatim>\<open>["a/x", ""]\<close> the requested model \<^verbatim>\<open>""\<close>, present in the list, is not moved to the
  front, because \<^verbatim>\<open>if model:\<close> is false for it.
\<close>

theorem C1_counterexample:
  "''a/x'' \<in> set (list_at demo_world (models (demo_self 0)))
   \<and> \<not> distinct (models_to_try (demo_self 0) (Some ''a/x'') demo_world)
   \<and> '''' \<in> set (list_at demo_world (models (demo_self 1)))
   \<and> hd (models_to_try (demo_self 1) (Some '''') demo_world) \<noteq> ''''"
  by (simp add: models_to_try_def demo_world_def demo_self_def)

text \<open>
  C6. When the constructor is given no model list or an empty one, and \<^verbatim>\<open>chat\<close> is given no
  requested model, the candidate list is the one-element list of the default model; the
  default model is also what \<^verbatim>\<open>get_default_model\<close> returns.
\<close>

theorem C6_empty_list_default:
  assumes "case models_arg of None \<Rightarrow> True | Some l \<Rightarrow> list_at w l = []"
      and "init cfg models_arg dm w = (self, w')"
  shows "models_to_try self None w' = [dm]
       \<and> length (models_to_try self None w') = 1
       \<and> get_default_model self w' = dm"
  using assms
  by (auto simp: init_def new_list_def models_to_try_def get_default_model_def
           split: option.splits)

theorem C6_empty_list_default_witness:
  "list_at demo_world 3 = []
   \<and> models_to_try (fst (init no_config (Some 3) ''d/z'' demo_world)) None
        (snd (init no_config (Some 3) ''d/z'' demo_world)) = [''d/z'']"
  using C6_empty_list_default [where models_arg = "Some 3" and w = demo_world
      and cfg = no_config and dm = "''d/z''"
      and self = "fst (init no_config (Some 3) ''d/z'' demo_world)"
      and w' = "snd (init no_config (Some 3) ''d/z'' demo_world)"]
  by (simp add: demo_world_def)

text \<open>
  C10 (as amended). A requested model that is the empty string is treated as no requested
  model: the candidate list is the configured model list, unchanged. The empty string is
  therefore a candidate exactly when the configured list itself contains it.
\<close>

theorem C10_empty_request:
  "models_to_try self (Some '''') w = list_at w (models self)
   \<and> models_to_try self (Some '''') w = models_to_try self None w
   \<and> ('''' \<in> set (models_to_try self (Some '''') w) \<longleftrightarrow> '''' \<in> set (list_at w (models self)))"
  by (simp add: models_to_try_def)

text \<open>
  The claim as stated says that the empty string is never tried. With the configured list
  \<^verbatim>\<open>["a/x", ""]\<close> and the empty string requested, the candidates are \<^verbatim>\<open>["a/x", ""]\<close>.
\<close>

theorem C10_counterexample:
  "models_to_try (demo_self 1) (Some '''') demo_world = [''a/x'', '''']
   \<and> '''' \<in> set (models_to_try (demo_self 1) (Some '''') demo_world)"
  by (simp add: models_to_try_def demo_world_def demo_self_def)

section \<open>Accessors: properties\<close>

text \<open>
  The list object of a dispatcher is an allocated one, provided that the list passed to the
  constructor is.
\<close>

lemma init_allocated:
  assumes "case models_arg of None \<Rightarrow> True | Some l \<Rightarrow> l < next_addr w"
      and "init cfg models_arg dm w = (self, w')"
  shows "models self < next_addr w'"
  using assms by (auto simp: init_def new_list_def split: option.splits if_splits)

text \<open>
  C9. \<^verbatim>\<open>get_models\<close> returns a new list object \<open>l\<close> with the elements of the configured model
  list. It is not the dispatcher's own list object, so whatever elements \<open>ys\<close> the caller
  gives the returned list afterwards, the dispatcher's list, the candidate list of \<^verbatim>\<open>chat\<close>
  for every requested model \<open>r\<close>, and the result of \<^verbatim>\<open>get_default_model\<close> stay as they
  were. The dispatcher's list object is one allocated before the call.
\<close>

theorem C9_get_models_copy:
  assumes alloc: "models self < next_addr w" and copy: "get_models self w = (l, w1)"
  shows "list_at w1 l = list_at w (models self)
       \<and> l \<noteq> models self
       \<and> list_at w1 (models self) = list_at w (models self)
       \<and> list_at (w1\<lparr>list_at := (list_at w1)(l := ys)\<rparr>) (models self) = list_at w (models self)
       \<and> models_to_try self r (w1\<lparr>list_at := (list_at w1)(l := ys)\<rparr>) = models_to_try self r w
       \<and> get_default_model self (w1\<lparr>list_at := (list_at w1)(l := ys)\<rparr>) = get_default_model self w"
proof -
  from copy have l: "l = next_addr w"
    and w1: "w1 = w\<lparr>list_at := (list_at w)(l := list_at w (models self)), next_addr := l + 1\<rparr>"
    by (auto simp: get_models_def new_list_def)
  from alloc l have fresh: "l \<noteq> models self" by simp
  have same: "list_at w1 l = list_at w (models self)"
    by (simp add: w1)
  have kept: "list_at w1 (models self) = list_at w (models self)"
    using fresh by (simp add: w1)
  have frame: "list_at (w1\<lparr>list_at := (list_at w1)(l := ys)\<rparr>) (models self) = list_at w (models self)"
    using fresh kept by simp
  have cands: "models_to_try self r (w1\<lparr>list_at := (list_at w1)(l := ys)\<rparr>) = models_to_try self r w"
    unfolding models_to_try_def frame ..
  have dflt: "get_default_model self (w1\<lparr>list_at := (list_at w1)(l := ys)\<rparr>) = get_default_model self w"
    unfolding get_default_model_def frame ..
  from same fresh kept frame cands dflt show ?thesis by blast
qed

theorem C9_get_models_copy_witness:
  "models (demo_self 2) < next_addr demo_world
   \<and> fst (get_models (demo_self 2) demo_world) = 6
   \<and> list_at (snd (get_models (demo_self 2) demo_world)) 6 = [''a/x'', ''b/y'', ''c/z'']
   \<and> models_to_try (demo_self 2) None
        ((snd (get_models (demo_self 2) demo_world))
           \<lparr>list_at := (list_at (snd (get_models (demo_self 2) demo_world)))(6 := [])\<rparr>)
      = [''a/x'', ''b/y'', ''c/z'']"
  using C9_get_models_copy [where self = "demo_self 2" and w = demo_world
      and l = "fst (get_models (demo_self 2) demo_world)"
      and ?w1.0 = "snd (get_models (demo_self 2) demo_world)"
      and ys = "[]" and r = None]
  by (simp add: get_models_def new_list_def demo_world_def demo_self_def models_to_try_def)

section \<open>Client cache: properties\<close>

text \<open>
  The three ways a resolution can go: a hit, a raise on a miss (of the registry lookup or of
  the constructor of the selected client), and a new client on a miss.
\<close>

lemma resolve_cases:
  assumes "get_provider_for_model ext self m w = (r, self1, w1)"
  shows "(\<exists>inst. providers self m = Some inst \<and> r = Inr inst \<and> self1 = self \<and> w1 = w)
       \<or> (providers self m = None \<and> self1 = self \<and> w1 = w
            \<and> (\<exists>e. r = Inl e
                 \<and> (registry_lookup ext (get_provider_name (config self) m) = Some e
                     \<or> (registry_lookup ext (get_provider_name (config self) m) = None
                         \<and> construct ext (new_provider (config self) m) = Some e))))
       \<or> (providers self m = None
            \<and> registry_lookup ext (get_provider_name (config self) m) = None
            \<and> construct ext (new_provider (config self) m) = None
            \<and> r = Inr (next_addr w, new_provider (config self) m)
            \<and> self1 = self\<lparr>providers :=
                  (providers self)(m \<mapsto> (next_addr w, new_provider (config self) m))\<rparr>
            \<and> w1 = w\<lparr>next_addr := next_addr w + 1\<rparr>)"
  using assms by (auto simp: get_provider_for_model_def Let_def split: option.splits)

lemma resolve_hit:
  "providers self m = Some inst \<Longrightarrow> get_provider_for_model ext self m w = (Inr inst, self, w)"
  by (simp add: get_provider_for_model_def)

lemma resolve_stored:
  assumes "get_provider_for_model ext self m w = (Inr inst, self1, w1)"
  shows "providers self1 m = Some inst"
  using resolve_cases [OF assms] by auto

lemma resolve_raise:
  assumes "get_provider_for_model ext self m w = (Inl e, self1, w1)"
  shows "self1 = self \<and> w1 = w \<and> providers self m = None"
  using resolve_cases [OF assms] by auto

text \<open>The cache only grows: every operation on the dispatcher keeps the entries it finds.\<close>

lemma resolve_grows:
  assumes "get_provider_for_model ext self m w = (r, self1, w1)"
  shows "providers self \<subseteq>\<^sub>m providers self1"
  using resolve_cases [OF assms] by (auto simp: map_le_def)

lemma attempt_grows:
  assumes "attempt ext pc req mtt idx m self w = (r, self1, w1)"
  shows "providers self \<subseteq>\<^sub>m providers self1"
proof -
  obtain x s v where g: "get_provider_for_model ext self m w = (x, s, v)"
    by (cases "get_provider_for_model ext self m w") auto
  with assms have "self1 = s"
    by (auto simp: attempt_def Let_def split: prod.splits sum.splits call_result.splits if_splits)
  with resolve_grows [OF g] show ?thesis by simp
qed

lemma chat_loop_grows:
  "chat_loop ext pc req mtt idx ms errors self w = (r, errs, self1, w1)
   \<Longrightarrow> providers self \<subseteq>\<^sub>m providers self1"
proof (induction ms arbitrary: idx errors self w)
  case Nil
  then show ?case by simp
next
  case (Cons m ms)
  obtain out s v where a: "attempt ext pc req mtt idx m self w = (out, s, v)"
    by (cases "attempt ext pc req mtt idx m self w") auto
  have g: "providers self \<subseteq>\<^sub>m providers s" by (rule attempt_grows [OF a])
  show ?case
  proof (cases out)
    case (Continue err)
    with Cons.prems a
    have "chat_loop ext pc req mtt (idx + 1) ms (errors @ [err]) s v = (r, errs, self1, w1)"
      by simp
    from Cons.IH [OF this] g show ?thesis by (rule map_le_trans [rotated])
  next
    case (Return resp)
    with Cons.prems a g show ?thesis by simp
  next
    case (Propagate sig)
    with Cons.prems a g show ?thesis by simp
  qed
qed

lemma chat_grows:
  assumes "chat ext pc dflt req model self w = (r, self1, w1)"
  shows "providers self \<subseteq>\<^sub>m providers self1"
proof -
  let ?mtt = "models_to_try self model w"
  obtain out errs s v where l: "chat_loop ext pc req ?mtt 0 ?mtt [] self w = (out, errs, s, v)"
    by (cases "chat_loop ext pc req ?mtt 0 ?mtt [] self w") auto
  with assms have "self1 = s"
    by (auto simp: chat_def chat_run_def Let_def split: option.splits)
  with chat_loop_grows [OF l] show ?thesis by simp
qed

lemma run_call_grows:
  assumes "run_call ext pc dflt c self w = (self1, w1)"
  shows "providers self \<subseteq>\<^sub>m providers self1"
proof (cases c)
  case (Resolve m)
  obtain x s v where g: "get_provider_for_model ext self m w = (x, s, v)"
    by (cases "get_provider_for_model ext self m w") auto
  with assms Resolve resolve_grows [OF g] show ?thesis by simp
next
  case (Chat req model)
  obtain r s v where g: "chat ext pc dflt req model self w = (r, s, v)"
    by (cases "chat ext pc dflt req model self w") auto
  with assms Chat chat_grows [OF g] show ?thesis by simp
next
  case (Set_config cfg)
  with assms show ?thesis by auto
qed

lemma run_calls_grows:
  "run_calls ext pc dflt cs self w = (self1, w1) \<Longrightarrow> providers self \<subseteq>\<^sub>m providers self1"
proof (induction cs arbitrary: self w)
  case Nil
  then show ?case by simp
next
  case (Cons c cs)
  obtain s v where a: "run_call ext pc dflt c self w = (s, v)"
    by (cases "run_call ext pc dflt c self w") auto
  with Cons.prems have "run_calls ext pc dflt cs s v = (self1, w1)" by simp
  from Cons.IH [OF this] run_call_grows [OF a] show ?case by (rule map_le_trans [rotated])
qed

text \<open>
  C7. Let a resolution of the model \<open>m\<close> return the instance \<open>inst\<close>. After any sequence of
  further resolutions, requests and changes of the configuration, resolving \<open>m\<close> again
  returns \<open>inst\<close>, the same object at the same address, and changes neither the dispatcher
  nor the world (no object is allocated); this holds whatever configuration \<open>cfg\<close> is in place
  at that moment and whatever the constructors and the registry lookup \<open>ext2\<close> would do, so
  none of them is consulted. A resolution changes the cache only by adding the entry for \<open>m\<close>
  when \<open>m\<close> has none: every entry present before is present after, with the same instance.
  A resolution that raises changes nothing.
\<close>

theorem C7_resolve_cached:
  assumes first: "get_provider_for_model ext self m w = (Inr inst, self1, w1)"
      and later: "run_calls ext1 pc dflt calls self1 w1 = (self2, w2)"
  shows "get_provider_for_model ext2 self2 m w2 = (Inr inst, self2, w2)
       \<and> get_provider_for_model ext2 (self2\<lparr>config := cfg\<rparr>) m w2
           = (Inr inst, self2\<lparr>config := cfg\<rparr>, w2)
       \<and> providers self \<subseteq>\<^sub>m providers self1
       \<and> providers self1 = (if m \<in> dom (providers self) then providers self
                             else (providers self)(m \<mapsto> inst))
       \<and> providers self1 \<subseteq>\<^sub>m providers self2
       \<and> (get_provider_for_model ext3 self3 m3 w3 = (Inl e, self4, w4)
            \<longrightarrow> self4 = self3 \<and> w4 = w3)"
proof -
  have stored: "providers self1 m = Some inst" by (rule resolve_stored [OF first])
  have grows: "providers self1 \<subseteq>\<^sub>m providers self2" by (rule run_calls_grows [OF later])
  from stored grows have kept: "providers self2 m = Some inst"
    by (metis domI map_le_def)
  have again: "get_provider_for_model ext2 self2 m w2 = (Inr inst, self2, w2)"
    by (rule resolve_hit [OF kept])
  have again': "get_provider_for_model ext2 (self2\<lparr>config := cfg\<rparr>) m w2
                  = (Inr inst, self2\<lparr>config := cfg\<rparr>, w2)"
    by (rule resolve_hit) (simp add: kept)
  have ins: "providers self1 = (if m \<in> dom (providers self) then providers self
                             else (providers self)(m \<mapsto> inst))"
    using resolve_cases [OF first] by auto
  have raise: "get_provider_for_model ext3 self3 m3 w3 = (Inl e, self4, w4)
                 \<longrightarrow> self4 = self3 \<and> w4 = w3"
    by (auto dest: resolve_raise)
  from again again' resolve_grows [OF first] ins grows raise show ?thesis by blast
qed

theorem C7_resolve_cached_witness:
  "fst (get_provider_for_model demo_ext (demo_self 2) ''a/x'' demo_world)
     = Inr (6, LiteLLMProvider None None ''a/x'' None None)
   \<and> get_provider_for_model strict_ext
        (fst (run_calls demo_ext demo_chat ()
               [Set_config demo_config, Chat () (Some ''b/y''), Resolve ''local/m'']
               (fst (snd (get_provider_for_model demo_ext (demo_self 2) ''a/x'' demo_world)))
               (snd (snd (get_provider_for_model demo_ext (demo_self 2) ''a/x'' demo_world)))))
        ''a/x''
        (snd (run_calls demo_ext demo_chat ()
               [Set_config demo_config, Chat () (Some ''b/y''), Resolve ''local/m'']
               (fst (snd (get_provider_for_model demo_ext (demo_self 2) ''a/x'' demo_world)))
               (snd (snd (get_provider_for_model demo_ext (demo_self 2) ''a/x'' demo_world)))))
     = (Inr (6, LiteLLMProvider None None ''a/x'' None None),
        run_calls demo_ext demo_chat ()
               [Set_config demo_config, Chat () (Some ''b/y''), Resolve ''local/m'']
               (fst (snd (get_provider_for_model demo_ext (demo_self 2) ''a/x'' demo_world)))
               (snd (snd (get_provider_for_model demo_ext (demo_self 2) ''a/x'' demo_world))))"
proof -
  let ?first = "get_provider_for_model demo_ext (demo_self 2) ''a/x'' demo_world"
  let ?calls = "[Set_config demo_config, Chat () (Some ''b/y''), Resolve ''local/m'']"
  let ?later = "run_calls demo_ext demo_chat () ?calls (fst (snd ?first)) (snd (snd ?first))"
  let ?inst = "(6, LiteLLMProvider None None ''a/x'' None None)"
  have inst: "fst ?first = Inr ?inst"
    by (simp add: get_provider_for_model_def new_provider_def demo_self_def demo_world_def
          no_config_def demo_ext_def Let_def)
  then have first: "?first = (Inr ?inst, fst (snd ?first), snd (snd ?first))"
    by (metis prod.collapse)
  have later: "run_calls demo_ext demo_chat () ?calls (fst (snd ?first)) (snd (snd ?first))
                 = (fst ?later, snd ?later)"
    by (simp only: prod.collapse)
  have "get_provider_for_model strict_ext (fst ?later) ''a/x'' (snd ?later)
          = (Inr ?inst, fst ?later, snd ?later)"
    by (rule C7_resolve_cached [where ?ext2.0 = strict_ext, OF first later, THEN conjunct1])
  with inst show ?thesis by simp
qed




section \<open>Fallback dispatch: properties\<close>

text \<open>A resolution neither reads nor writes the log.\<close>

lemma resolve_log:
  "get_provider_for_model ext self m w = (r, s, v) \<Longrightarrow>
   get_provider_for_model ext self m (w\<lparr>log := l\<rparr>) = (r, s, v\<lparr>log := l\<rparr>)"
  by (auto simp: get_provider_for_model_def Let_def split: option.splits)

text \<open>
  What one iteration does, from the outcome \<open>out\<close> of the backend call. Only the state of the
  backends and the log differ from the world after the resolution.
\<close>

lemma attempt_called:
  assumes res: "get_provider_for_model ext self m w = (Inr inst, self1, w1)"
      and call: "pc (snd inst) req m (backend w1) = (out, b)"
  shows "\<exists>l. attempt ext pc req mtt idx m self w =
           (case out of
              Returned response \<Rightarrow>
                if is_error_response response
                then Continue (m, str_or (content response) ''Unknown error'')
                else Return response
            | Raised_Exception e \<Rightarrow> Continue (m, e)
            | Raised_other s \<Rightarrow> Propagate s,
            self1, w1\<lparr>backend := b, log := l\<rparr>)"
proof -
  obtain st s v where a: "attempt ext pc req mtt idx m self w = (st, s, v)"
    by (cases "attempt ext pc req mtt idx m self w") auto
  from a res call have "st = (case out of
              Returned response \<Rightarrow>
                if is_error_response response
                then Continue (m, str_or (content response) ''Unknown error'')
                else Return response
            | Raised_Exception e \<Rightarrow> Continue (m, e)
            | Raised_other s \<Rightarrow> Propagate s)"
    and "s = self1" and "v = w1\<lparr>backend := b, log := log v\<rparr>"
    by (auto simp: attempt_def Let_def split: call_result.splits if_splits)
  with a show ?thesis by metis
qed

lemma attempt_unresolved:
  assumes "get_provider_for_model ext self m w = (Inl e, self1, w1)"
  shows "\<exists>l. attempt ext pc req mtt idx m self w = (Continue (m, e), self1, w1\<lparr>log := l\<rparr>)"
proof -
  from assms have "attempt ext pc req mtt idx m self w
      = (Continue (m, e), self1, w1\<lparr>log := log w1 @ [Warning_threw m e]\<rparr>)"
    by (simp add: attempt_def)
  then show ?thesis by blast
qed

text \<open>The test of the code and the record it makes agree with the spec's notions.\<close>

lemma is_error_response_iff:
  "is_error_response response \<longleftrightarrow>
     finish_reason response = ''error''
     \<or> (\<exists>c. content response = Some c \<and> prefix ''Error calling LLM:'' c)"
  by (auto simp: is_error_response_def split: option.splits)

lemma is_error_response_soft: "is_error_response response \<longleftrightarrow> soft_failure response"
  by (auto simp: is_error_response_def soft_failure_def split: option.splits)

lemma failed_continues:
  assumes "failed out"
  shows "(case out of
            Returned response \<Rightarrow>
              if is_error_response response
              then Continue (m, str_or (content response) ''Unknown error'')
              else Return response
          | Raised_Exception e \<Rightarrow> Continue (m, e)
          | Raised_other s \<Rightarrow> Propagate s) = Continue (failure_record m out)"
proof (cases out)
  case (Returned response)
  with assms show ?thesis
    by (cases "content response") (auto simp: is_error_response_soft)
next
  case (Raised_Exception e)
  then show ?thesis by simp
next
  case (Raised_other s)
  with assms show ?thesis by simp
qed

text \<open>
  C4. Let the backend call for the candidate \<open>m\<close> return the response \<open>response\<close>. The
  iteration ends with a failure record exactly when the finish-reason is \<^verbatim>\<open>"error"\<close> or the
  content begins with \<^verbatim>\<open>"Error calling LLM:"\<close>. In that case the record pairs \<open>m\<close> with the
  content, or with \<^verbatim>\<open>"Unknown error"\<close> when the content is absent or empty, and the loop goes
  on with the next candidate and the record appended to \<^verbatim>\<open>errors\<close>. Otherwise the loop
  returns \<open>response\<close>.
\<close>

theorem C4_soft_failure:
  assumes res: "get_provider_for_model ext self m w = (Inr inst, self1, w1)"
      and call: "pc (snd inst) req m (backend w1) = (Returned response, b)"
      and att: "attempt ext pc req mtt idx m self w = (out, self2, w2)"
      and soft: "soft \<longleftrightarrow> finish_reason response = ''error''
                   \<or> (\<exists>c. content response = Some c \<and> prefix ''Error calling LLM:'' c)"
      and msg: "msg = (case content response of
                         None \<Rightarrow> ''Unknown error''
                       | Some c \<Rightarrow> if c = [] then ''Unknown error'' else c)"
  shows "(soft \<longleftrightarrow> (\<exists>record. out = Continue record))
       \<and> (soft \<longrightarrow> out = Continue (m, msg)
                  \<and> chat_loop ext pc req mtt idx (m # rest) errors self w =
                      chat_loop ext pc req mtt (idx + 1) rest (errors @ [(m, msg)]) self2 w2)
       \<and> (\<not> soft \<longrightarrow> out = Return response
                  \<and> chat_loop ext pc req mtt idx (m # rest) errors self w =
                      (Some (Inr response), errors, self2, w2))"
proof -
  have s: "soft \<longleftrightarrow> is_error_response response"
    by (simp add: soft is_error_response_iff)
  have m: "str_or (content response) ''Unknown error'' = msg"
    by (cases "content response") (auto simp: msg)
  from attempt_called [where pc = pc and mtt = mtt and idx = idx, OF res call] att
  have out: "out = (if soft then Continue (m, msg) else Return response)"
    by (auto simp: s m)
  show ?thesis
    using att by (auto simp: out)
qed

theorem C4_soft_failure_witness:
  "fst (get_provider_for_model demo_ext (demo_self 5) ''d/z'' demo_world)
     = Inr (6, LiteLLMProvider None None ''d/z'' None None)
   \<and> demo_chat (LiteLLMProvider None None ''d/z'' None None) () ''d/z'' 0
     = (Returned \<lparr>content = Some ''Error calling LLM: timeout'', finish_reason = ''stop'',
                  meta = ()\<rparr>, 1)
   \<and> fst (attempt demo_ext demo_chat () [''c/z'', ''d/z''] 1 ''d/z'' (demo_self 5) demo_world)
     = Continue (''d/z'', ''Error calling LLM: timeout'')"
proof -
  let ?r = "get_provider_for_model demo_ext (demo_self 5) ''d/z'' demo_world"
  let ?a = "attempt demo_ext demo_chat () [''c/z'', ''d/z''] 1 ''d/z'' (demo_self 5) demo_world"
  let ?inst = "(6, LiteLLMProvider None None ''d/z'' None None)"
  let ?resp = "\<lparr>content = Some ''Error calling LLM: timeout'', finish_reason = ''stop'', meta = ()\<rparr>"
  have p: "fst ?r = Inr ?inst"
    by (simp add: get_provider_for_model_def new_provider_def demo_self_def demo_world_def
          no_config_def demo_ext_def Let_def)
  then have res: "?r = (Inr ?inst, fst (snd ?r), snd (snd ?r))"
    by (metis prod.collapse)
  have b: "backend (snd (snd ?r)) = 0"
    by (simp add: get_provider_for_model_def demo_self_def demo_world_def demo_ext_def
          no_config_def Let_def)
  have call: "demo_chat (snd ?inst) () ''d/z'' (backend (snd (snd ?r))) = (Returned ?resp, 1)"
    by (simp add: demo_chat_def b)
  have att: "?a = (fst ?a, fst (snd ?a), snd (snd ?a))"
    by (simp only: prod.collapse)
  have "fst ?a = Continue (''d/z'', ''Error calling LLM: timeout'')"
    using C4_soft_failure [where pc = demo_chat and soft = True
        and msg = "''Error calling LLM: timeout''", OF res call att]
    by simp
  with p call show ?thesis by (simp add: demo_chat_def)
qed

lemma join_middle:
  "join sep (xs @ [x] @ ys) =
     (if xs = [] then [] else join sep xs @ sep) @ x @ (if ys = [] then [] else sep @ join sep ys)"
proof (induction sep xs rule: join.induct)
  case (1 sep)
  show ?case by (cases ys) simp_all
next
  case (2 sep y)
  show ?case by (cases ys) simp_all
next
  case (3 sep y z zs)
  then show ?case by simp
qed

text \<open>
  C5. In the aggregate failure message, the failure record at position \<open>i\<close>, with candidate
  \<open>m\<close> and message \<open>e\<close>, is rendered between the records before it and those after it,
  separated by \<^verbatim>\<open>"; "\<close>, as \<open>m\<close>, a colon and a space, followed by the first 50 characters of
  \<open>e\<close> and \<^verbatim>\<open>"..."\<close> when \<open>e\<close> has more than 50 characters, and by \<open>e\<close> itself when it has 50
  characters or fewer.
\<close>

theorem C5_truncation:
  assumes "i < length errors" and "errors ! i = (m, e)"
      and "shown = (if i = 0 then [] else error_summary (take i errors) @ ''; '')
                   @ render_error (m, e)
                   @ (if Suc i = length errors then []
                      else ''; '' @ error_summary (drop (Suc i) errors))"
  shows "error_summary errors = shown
       \<and> (length e > 50 \<longrightarrow> render_error (m, e) = m @ '': '' @ take 50 e @ ''...'')
       \<and> (length e \<le> 50 \<longrightarrow> render_error (m, e) = m @ '': '' @ e)"
proof -
  from assms(1,2) have "errors = take i errors @ [(m, e)] @ drop (Suc i) errors"
    by (metis append_Cons append_Nil id_take_nth_drop)
  then have "map render_error errors =
      map render_error (take i errors) @ [render_error (m, e)]
        @ map render_error (drop (Suc i) errors)"
    by (metis list.simps(8,9) map_append)
  then have "error_summary errors =
      join ''; '' (map render_error (take i errors) @ [render_error (m, e)]
        @ map render_error (drop (Suc i) errors))"
    by (simp only: error_summary_def)
  also have "\<dots> = shown"
    using assms(1) unfolding join_middle assms(3) error_summary_def by auto
  finally show ?thesis by simp
qed

theorem C5_truncation_witness:
  "[(''c/z'', long_message), (''d/z'', ''Error calling LLM: timeout'')] ! 0 = (''c/z'', long_message)
   \<and> length long_message = 61
   \<and> error_summary [(''c/z'', long_message), (''d/z'', ''Error calling LLM: timeout'')]
     = ''c/z: upstream gateway refused the connection after 3 re...; d/z: Error calling LLM: timeout''"
  using C5_truncation [where i = 0
      and errors = "[(''c/z'', long_message), (''d/z'', ''Error calling LLM: timeout'')]"
      and m = "''c/z''" and e = long_message, OF _ _ refl]
  by (simp add: long_message_def error_summary_def)

text \<open>
  As long as the candidates fail, the loop steps over them and collects the spec's failure
  records. The candidates are called as \<open>call_each\<close> calls them; the loop adds to the log
  only.
\<close>

lemma call_each_length:
  "call_each ext pc req ms self w = (outs, s, v) \<Longrightarrow> length outs = length ms"
  by (induction ms arbitrary: self w outs)
     (auto split: prod.splits sum.splits)

lemma failed_prefix_loop:
  "call_each ext pc req ms self w = (outs, s, v) \<Longrightarrow> list_all failed outs \<Longrightarrow>
   \<exists>l. chat_loop ext pc req mtt idx (ms @ rest) errors self (w\<lparr>log := l0\<rparr>) =
        chat_loop ext pc req mtt (idx + length ms) rest
          (errors @ map2 failure_record ms outs) s (v\<lparr>log := l\<rparr>)"
proof (induction ms arbitrary: idx self w outs errors l0)
  case Nil
  then show ?case by auto
next
  case (Cons m ms)
  obtain r s1 w1 where res: "get_provider_for_model ext self m w = (r, s1, w1)"
    by (cases "get_provider_for_model ext self m w") auto
  have res': "get_provider_for_model ext self m (w\<lparr>log := l0\<rparr>) = (r, s1, w1\<lparr>log := l0\<rparr>)"
    by (rule resolve_log [OF res])
  show ?case
  proof (cases r)
    case (Inl e)
    with Cons.prems(1) res obtain outs' where
      each: "call_each ext pc req ms s1 w1 = (outs', s, v)"
      and outs: "outs = Raised_Exception e # outs'"
      by (auto split: prod.splits)
    from attempt_unresolved [where pc = pc and req = req and mtt = mtt and idx = idx]
      res' Inl
    obtain l1 where
      att: "attempt ext pc req mtt idx m self (w\<lparr>log := l0\<rparr>)
              = (Continue (m, e), s1, w1\<lparr>log := l1\<rparr>)"
      by fastforce
    from Cons.prems(2) outs have "list_all failed outs'" by simp
    from Cons.IH [OF each this, of "idx + 1" "errors @ [(m, e)]" l1]
    obtain l where
      "chat_loop ext pc req mtt (idx + 1) (ms @ rest) (errors @ [(m, e)]) s1 (w1\<lparr>log := l1\<rparr>) =
       chat_loop ext pc req mtt (idx + 1 + length ms) rest
         ((errors @ [(m, e)]) @ map2 failure_record ms outs') s (v\<lparr>log := l\<rparr>)"
      by blast
    with att outs show ?thesis by auto
  next
    case (Inr inst)
    obtain out b where call: "pc (snd inst) req m (backend w1) = (out, b)"
      by (cases "pc (snd inst) req m (backend w1)") auto
    with Cons.prems(1) res Inr obtain outs' where
      each: "call_each ext pc req ms s1 (w1\<lparr>backend := b\<rparr>) = (outs', s, v)"
      and outs: "outs = out # outs'"
      by (auto split: prod.splits)
    from Cons.prems(2) outs have f: "failed out" and fs: "list_all failed outs'" by simp_all
    have call': "pc (snd inst) req m (backend (w1\<lparr>log := l0\<rparr>)) = (out, b)"
      using call by simp
    from attempt_called [where pc = pc and mtt = mtt and idx = idx, OF res' [unfolded Inr] call']
      failed_continues [OF f, of m]
    obtain l1 where
      att: "attempt ext pc req mtt idx m self (w\<lparr>log := l0\<rparr>)
              = (Continue (failure_record m out), s1, w1\<lparr>backend := b, log := l1\<rparr>)"
      by auto
    from Cons.IH [OF each fs, of "idx + 1" "errors @ [failure_record m out]" l1]
    obtain l where
      "chat_loop ext pc req mtt (idx + 1) (ms @ rest) (errors @ [failure_record m out]) s1
         (w1\<lparr>backend := b, log := l1\<rparr>) =
       chat_loop ext pc req mtt (idx + 1 + length ms) rest
         ((errors @ [failure_record m out]) @ map2 failure_record ms outs') s (v\<lparr>log := l\<rparr>)"
      by auto
    with att outs show ?thesis by auto
  qed
qed

lemma failure_record_candidate: "fst (failure_record m out) = m"
  by (cases out) simp_all

lemma failure_records_candidates:
  "length ms = length outs \<Longrightarrow> map fst (map2 failure_record ms outs) = ms"
  by (induction ms outs rule: list_induct2) (simp_all add: failure_record_candidate)

lemma render_error_shape:
  "render_error r =
     fst r @ '': '' @ (if length (snd r) > 50 then take 50 (snd r) @ ''...'' else snd r)"
  by (cases r) simp

lemma occurs_in_join:
  "occurs_in_order (map fst errs) (pre @ join sep (map render_error errs))"
proof (induction errs arbitrary: pre)
  case Nil
  show ?case by (simp add: occ_nil)
next
  case (Cons r errs)
  define shown where "shown = (if length (snd r) > 50 then take 50 (snd r) @ ''...'' else snd r)"
  have rr: "render_error r = fst r @ '': '' @ shown"
    unfolding shown_def by (rule render_error_shape)
  show ?case
  proof (cases errs)
    case Nil
    have eq: "pre @ join sep (map render_error (r # errs)) = pre @ fst r @ ('': '' @ shown)"
      using Nil rr by simp
    have "occurs_in_order (fst r # []) (pre @ fst r @ ('': '' @ shown))"
      by (intro occ_cons occ_nil)
    with Nil show ?thesis unfolding eq by simp
  next
    case (Cons r' errs')
    have eq: "pre @ join sep (map render_error (r # errs)) =
        pre @ fst r @ (('': '' @ shown @ sep) @ join sep (map render_error errs))"
      using Cons rr by simp
    have "occurs_in_order (fst r # map fst errs)
            (pre @ fst r @ (('': '' @ shown @ sep) @ join sep (map render_error errs)))"
      by (intro occ_cons Cons.IH)
    then show ?thesis unfolding eq by simp
  qed
qed




lemma demo_both_fail:
  "\<exists>s v. call_each demo_ext demo_chat () [''c/z'', ''d/z''] (demo_self 5) demo_world
           = ([Raised_Exception long_message,
               Returned \<lparr>content = Some ''Error calling LLM: timeout'', finish_reason = ''stop'',
                         meta = ()\<rparr>], s, v)"
  by (simp add: get_provider_for_model_def demo_chat_def demo_self_def demo_ext_def
        no_config_def Let_def)




text \<open>
  C3 (as amended). If every candidate, resolved and called in order, fails by raising an
  \<^verbatim>\<open>Exception\<close> or by returning a response that reports an error, \<^verbatim>\<open>chat\<close> returns, and does
  not raise, a response with the finish-reason \<^verbatim>\<open>"error"\<close> whose content is
  \<^verbatim>\<open>"Error: All models failed. "\<close> followed by the failure records joined by \<^verbatim>\<open>"; "\<close> in
  try order. There is one record for each candidate, and each is rendered as the candidate,
  a colon and a space, and the message, cut to its first 50 characters with \<^verbatim>\<open>"..."\<close>
  appended when it is longer than 50 characters. The content starts with
  \<^verbatim>\<open>"Error: All models failed."\<close> and contains the candidates in try order.
\<close>

theorem C3_all_fail:
  assumes mtt: "models_to_try self model w = ms"
      and each: "call_each ext pc req ms self w = (outs, self1, w1)"
      and failed: "list_all failed outs"
      and errs: "errs = map2 failure_record ms outs"
      and body: "body = ''Error: All models failed. '' @ join ''; '' (map render_error errs)"
  shows "(\<exists>l. chat ext pc dflt req model self w =
                (Inr \<lparr>content = Some body, finish_reason = ''error'', meta = dflt\<rparr>, self1,
                 w1\<lparr>log := l\<rparr>))
       \<and> \<not> isl (fst (chat ext pc dflt req model self w))
       \<and> fst (snd (chat_run ext pc dflt req model self w)) = errs
       \<and> map fst errs = ms
       \<and> map render_error errs =
           map (\<lambda>(m, e). m @ '': '' @ (if length e > 50 then take 50 e @ ''...'' else e)) errs
       \<and> prefix ''Error: All models failed.'' body
       \<and> occurs_in_order ms body"
proof -
  from failed_prefix_loop [OF each failed, of ms 0 "[]" "[]" "log w"]
  obtain l1 where "chat_loop ext pc req ms 0 ms [] self w = (None, errs, self1, w1\<lparr>log := l1\<rparr>)"
    by (auto simp: errs)
  then have run: "chat_run ext pc dflt req model self w =
           (Inr \<lparr>content = Some body, finish_reason = ''error'', meta = dflt\<rparr>, errs, self1,
            w1\<lparr>log := l1 @ [Error_all_failed (error_summary errs)]\<rparr>)"
    by (simp add: chat_run_def mtt body error_summary_def)
  then have ret: "chat ext pc dflt req model self w =
           (Inr \<lparr>content = Some body, finish_reason = ''error'', meta = dflt\<rparr>, self1,
            w1\<lparr>log := l1 @ [Error_all_failed (error_summary errs)]\<rparr>)"
    by (simp add: chat_def)
  have len: "length ms = length outs"
    using call_each_length [OF each] by simp
  have c: "map fst errs = ms"
    unfolding errs by (rule failure_records_candidates [OF len])
  have r: "map render_error errs =
           map (\<lambda>(m, e). m @ '': '' @ (if length e > 50 then take 50 e @ ''...'' else e)) errs"
    by (rule map_cong) auto
  have p: "prefix ''Error: All models failed.'' body"
    by (simp add: body)
  have "occurs_in_order (map fst errs) body"
    unfolding body by (rule occurs_in_join)
  with c have o: "occurs_in_order ms body" by simp
  from ret have e: "\<exists>l. chat ext pc dflt req model self w =
                (Inr \<lparr>content = Some body, finish_reason = ''error'', meta = dflt\<rparr>, self1,
                 w1\<lparr>log := l\<rparr>)"
    by blast
  from ret have n: "\<not> isl (fst (chat ext pc dflt req model self w))" by simp
  from run have f: "fst (snd (chat_run ext pc dflt req model self w)) = errs" by simp
  from e n f c r p o show ?thesis by blast
qed

theorem C3_all_fail_witness:
  "models_to_try (demo_self 5) None demo_world = [''c/z'', ''d/z'']
   \<and> fst (snd (chat_run demo_ext demo_chat () () None (demo_self 5) demo_world))
     = [(''c/z'', long_message), (''d/z'', ''Error calling LLM: timeout'')]
   \<and> fst (chat demo_ext demo_chat () () None (demo_self 5) demo_world)
     = Inr \<lparr>content = Some ''Error: All models failed. c/z: upstream gateway refused the connection after 3 re...; d/z: Error calling LLM: timeout'',
            finish_reason = ''error'', meta = ()\<rparr>"
proof -
  let ?timeout = "\<lparr>content = Some ''Error calling LLM: timeout'', finish_reason = ''stop'',
                   meta = ()\<rparr>"
  have mtt: "models_to_try (demo_self 5) None demo_world = [''c/z'', ''d/z'']"
    by (simp add: models_to_try_def demo_self_def demo_world_def)
  from demo_both_fail obtain s v where
    each: "call_each demo_ext demo_chat () [''c/z'', ''d/z''] (demo_self 5) demo_world
             = ([Raised_Exception long_message, Returned ?timeout], s, v)"
    by auto
  have failed: "list_all failed [Raised_Exception long_message, Returned ?timeout]"
    by (simp add: soft_failure_def)
  from C3_all_fail [where pc = demo_chat and dflt = "()", OF mtt each failed refl refl]
  have "fst (chat demo_ext demo_chat () () None (demo_self 5) demo_world)
          = Inr \<lparr>content = Some (''Error: All models failed. '' @ join ''; ''
                (map render_error
                  (map2 failure_record [''c/z'', ''d/z'']
                     [Raised_Exception long_message, Returned ?timeout]))),
             finish_reason = ''error'', meta = ()\<rparr>"
    and "fst (snd (chat_run demo_ext demo_chat () () None (demo_self 5) demo_world))
          = map2 failure_record [''c/z'', ''d/z'']
              [Raised_Exception long_message, Returned ?timeout]"
    by auto
  with mtt show ?thesis by (simp add: long_message_def)
qed

text \<open>
  The claim as stated fails in two ways. It renders each record with its message in full: in
  the second example run the message of \<^verbatim>\<open>"c/z"\<close> has 61 characters, and the content
  returned is not the records joined with their full messages. And it has \<^verbatim>\<open>chat\<close> never
  raise: when the backend call of every candidate is cancelled, which is a raise but not an
  \<^verbatim>\<open>Exception\<close>, the first of them leaves \<^verbatim>\<open>chat\<close> as a raise.
\<close>

theorem C3_counterexample:
  "fst (snd (chat_run demo_ext demo_chat () () None (demo_self 5) demo_world))
     = [(''c/z'', long_message), (''d/z'', ''Error calling LLM: timeout'')]
   \<and> fst (chat_run demo_ext demo_chat () () None (demo_self 5) demo_world)
     \<noteq> Inr \<lparr>content = Some (''Error: All models failed. ''
                   @ join ''; '' [''c/z'' @ '': '' @ long_message,
                                  ''d/z'' @ '': '' @ ''Error calling LLM: timeout'']),
            finish_reason = ''error'', meta = ()\<rparr>
   \<and> fst (call_each demo_ext cancelled_chat () [''a/x'', ''b/y''] (demo_self 4) demo_world)
     = [Raised_other ''CancelledError'', Raised_other ''CancelledError'']
   \<and> fst (chat demo_ext cancelled_chat () () None (demo_self 4) demo_world)
     = Inl ''CancelledError''"
proof -
  have mtt: "models_to_try (demo_self 5) None demo_world = [''c/z'', ''d/z'']"
    by (simp add: models_to_try_def demo_self_def demo_world_def)
  from demo_both_fail obtain s v where
    each: "call_each demo_ext demo_chat () [''c/z'', ''d/z''] (demo_self 5) demo_world
             = ([Raised_Exception long_message,
                 Returned \<lparr>content = Some ''Error calling LLM: timeout'',
                           finish_reason = ''stop'', meta = ()\<rparr>], s, v)"
    by auto
  from failed_prefix_loop [OF each, of "[''c/z'', ''d/z'']" 0 "[]" "[]" "log demo_world"]
  obtain l where
    "chat_loop demo_ext demo_chat () [''c/z'', ''d/z''] 0 [''c/z'', ''d/z''] [] (demo_self 5)
       demo_world
       = (None, [(''c/z'', long_message), (''d/z'', ''Error calling LLM: timeout'')], s,
          v\<lparr>log := l\<rparr>)"
    by (auto simp: soft_failure_def)
  then have trunc:
    "fst (snd (chat_run demo_ext demo_chat () () None (demo_self 5) demo_world))
       = [(''c/z'', long_message), (''d/z'', ''Error calling LLM: timeout'')]
     \<and> fst (chat_run demo_ext demo_chat () () None (demo_self 5) demo_world)
       \<noteq> Inr \<lparr>content = Some (''Error: All models failed. ''
                   @ join ''; '' [''c/z'' @ '': '' @ long_message,
                                  ''d/z'' @ '': '' @ ''Error calling LLM: timeout'']),
              finish_reason = ''error'', meta = ()\<rparr>"
    by (simp add: chat_run_def mtt error_summary_def long_message_def)
  have each_cancelled:
    "fst (call_each demo_ext cancelled_chat () [''a/x'', ''b/y''] (demo_self 4) demo_world)
       = [Raised_other ''CancelledError'', Raised_other ''CancelledError'']"
    by (simp add: get_provider_for_model_def cancelled_chat_def demo_self_def demo_ext_def
          no_config_def Let_def)
  have cancelled:
    "fst (chat demo_ext cancelled_chat () () None (demo_self 4) demo_world)
       = Inl ''CancelledError''"
    by (simp add: chat_def chat_run_def models_to_try_def attempt_def
          get_provider_for_model_def cancelled_chat_def demo_self_def demo_world_def
          demo_ext_def no_config_def Let_def)
  from trunc each_cancelled cancelled show ?thesis by blast
qed

end
